theory Spec2Isabelle
  imports Main "HOL-Library.Word"
begin

text \<open>
  The option functions of libpod (\<^verbatim>\<open>libpod/options.go\<close>): each one is applied to a
  runtime, container, pod or volume under construction, validates its argument and sets
  fields of the entity's configuration. The theory embeds the options the stated
  properties are about, together with their neighbours in the file, and proves the
  properties of the embedding.
\<close>

section \<open>Errors\<close>

text \<open>
  The option functions of \<^verbatim>\<open>libpod/options.go\<close> return Go \<^verbatim>\<open>error\<close> values. The
  sentinel errors of package \<^verbatim>\<open>define\<close> are constructors; \<^verbatim>\<open>errors.Wrapf(err, msg)\<close>
  keeps the wrapped error and the formatted message. \<open>ErrExternal\<close> stands for an error
  handed back by a collaborator outside the package (the storage library, the secrets
  manager). \<open>ErrDependency\<close> is the error class the specification names for a rejected
  dependency container. \<open>Panic\<close> is a run-time panic (a nil pointer dereference).
\<close>

datatype error =
    ErrRuntimeFinalized
  | ErrCtrFinalized
  | ErrPodFinalized
  | ErrVolumeFinalized
  | ErrInvalidArg
  | ErrDependency
  | ErrExternal string
  | Wrapf error string
  | Panic string

text \<open>
  An option function is a closure \<^verbatim>\<open>func(x *T) error\<close>: it mutates the entity behind the
  pointer and returns \<^verbatim>\<open>nil\<close> or an error. The model returns both the error
  (\<open>None\<close> for \<^verbatim>\<open>nil\<close>) and the entity as the call leaves it, so that a mutation made
  on a failing path stays visible.
\<close>

type_synonym 'a applied = "error option \<times> 'a"

section \<open>Data model\<close>

text \<open>Go's \<^verbatim>\<open>int\<close> and \<^verbatim>\<open>uint\<close> are 64-bit words, \<^verbatim>\<open>uint32\<close> a 32-bit word.\<close>

type_synonym go_int = "64 word"
type_synonym go_uint = "64 word"
type_synonym uint32 = "32 word"

text \<open>\<^verbatim>\<open>idtools.IDMap\<close>: one (container ID, host ID, size) range.\<close>

record IDMap =
  ContainerID :: go_int
  HostID :: go_int
  Size :: go_int

text \<open>
  \<^verbatim>\<open>storage.StoreOptions\<close>, the fields \<^verbatim>\<open>WithStorageConfig\<close> reads or writes. A slice
  that the code compares with \<^verbatim>\<open>nil\<close> is an optional list.
\<close>

record StoreOptions =
  RunRoot :: string
  GraphRoot :: string
  GraphDriverName :: string
  GraphDriverOptions :: "string list option"
  StoreUIDMap :: "IDMap list option"
  StoreGIDMap :: "IDMap list option"

record storageSet =
  RunRootSet :: bool
  GraphRootSet :: bool
  StaticDirSet :: bool
  VolumePathSet :: bool
  GraphDriverNameSet :: bool

text \<open>\<^verbatim>\<open>config.EngineConfig\<close>, the fields the modelled runtime options touch.\<close>

record EngineConfig =
  StaticDir :: string
  VolumePath :: string
  TmpDir :: string
  Namespace :: string
  InfraImage :: string
  InfraCommand :: string
  NoPivotRoot :: bool
  SDNotify :: bool

record Config =
  Engine :: EngineConfig

record Runtime =
  rt_config :: Config
  storageConfig :: StoreOptions
  rt_storageSet :: storageSet
  rt_valid :: bool
  noStore :: bool
  doRenumber :: bool
  doMigrate :: bool

text \<open>
  The OCI runtime spec as far as ID mappings go: \<^verbatim>\<open>specs.Spec\<close> holds a pointer to
  \<^verbatim>\<open>specs.Linux\<close>, which holds the two mapping slices of \<^verbatim>\<open>specs.LinuxIDMapping\<close>
  (three \<^verbatim>\<open>uint32\<close> fields).
\<close>

record LinuxIDMapping =
  LinuxContainerID :: uint32
  LinuxHostID :: uint32
  LinuxSize :: uint32

record Linux =
  UIDMappings :: "LinuxIDMapping list"
  GIDMappings :: "LinuxIDMapping list"

record Spec =
  SpecLinux :: "Linux option"

text \<open>
  \<^verbatim>\<open>storage.IDMappingOptions\<close>. The code only ranges over its two slices, so they are
  plain lists.
\<close>

record IDMappingOptions =
  HostUIDMapping :: bool
  HostGIDMapping :: bool
  UIDMap :: "IDMap list"
  GIDMap :: "IDMap list"
  AutoUserNs :: bool

datatype Secret = Secret (SecretName: string) (SecretID: string)

text \<open>\<^verbatim>\<open>net.IP\<close> is a byte slice.\<close>

type_synonym IP = "8 word list"

text \<open>\<^verbatim>\<open>ContainerConfig\<close>, the fields the modelled container options read or write.\<close>

record ContainerConfig =
  CtrSpec :: "Spec option"
  ID :: string
  Pod :: string
  IDMappings :: IDMappingOptions
  Dependencies :: "string list"
  IPCNsCtr :: string
  NetNsCtr :: string
  UserNsCtr :: string
  StopSignal :: go_uint
  StopTimeout :: go_uint
  LogDriver :: string
  DNSServer :: "IP list"
  DNSOption :: "string list"
  UseImageResolvConf :: bool
  UseImageHosts :: bool
  EnvSecrets :: "string \<rightharpoonup> Secret"

record Container =
  ctr_config :: ContainerConfig
  ctr_valid :: bool

record PodConfig =
  PodCgroupParent :: string
  UsePodCgroup :: bool
  UsePodIPC :: bool
  UsePodNet :: bool
  HasInfra :: bool

record Pod =
  pod_config :: PodConfig
  pod_valid :: bool

record VolumeConfig =
  Driver :: string
  VolumeUID :: go_int
  VolumeGID :: go_int
  IsAnon :: bool

record VolumeState =
  NeedsChown :: bool

record Volume =
  vol_config :: VolumeConfig
  vol_state :: VolumeState
  vol_valid :: bool

section \<open>Library functions the options call\<close>

text \<open>
  \<^verbatim>\<open>filepath.Join\<close> of the Go standard library on a Unix host, for two elements:
  the elements from the first non-empty one on are joined with a slash and the result
  is cleaned (\<^verbatim>\<open>filepath.Clean\<close>); with no non-empty element the result is empty.
  \<open>Clean\<close> works on the slash-separated elements of the path and keeps a stack of
  the elements written so far: empty elements and \<^verbatim>\<open>.\<close> are dropped, \<^verbatim>\<open>..\<close> removes
  the last written element when there is one that is not itself \<^verbatim>\<open>..\<close>, is kept when
  the path is not rooted, and is dropped at the root.
\<close>

fun split_slash :: "string \<Rightarrow> string list" where
  "split_slash [] = [[]]"
| "split_slash (c # cs) =
     (if c = CHR ''/'' then [] # split_slash cs
      else (case split_slash cs of
              [] \<Rightarrow> [[c]]
            | e # es \<Rightarrow> (c # e) # es))"

definition Clean_elem :: "bool \<Rightarrow> string list \<Rightarrow> string \<Rightarrow> string list" where
  "Clean_elem rooted out e =
     (if e = [] \<or> e = ''.'' then out
      else if e = ''..'' then
        (if out \<noteq> [] \<and> last out \<noteq> ''..'' then butlast out
         else if \<not> rooted then out @ [''..'']
         else out)
      else out @ [e])"

fun join_slash :: "string list \<Rightarrow> string" where
  "join_slash [] = []"
| "join_slash [e] = e"
| "join_slash (e # es) = e @ ''/'' @ join_slash es"

definition Clean :: "string \<Rightarrow> string" where
  "Clean path =
     (if path = [] then ''.''
      else
        let rooted = (hd path = CHR ''/'');
            out = foldl (Clean_elem rooted) [] (split_slash path)
        in if rooted then ''/'' @ join_slash out
           else if out = [] then ''.''
           else join_slash out)"

definition filepath_Join :: "string \<Rightarrow> string \<Rightarrow> string" where
  "filepath_Join a b =
     (if a \<noteq> [] then Clean (a @ ''/'' @ b)
      else if b \<noteq> [] then Clean b
      else [])"

section \<open>Runtime creation options\<close>

text \<open>
  \<^verbatim>\<open>WithStorageConfig\<close>. The first argument is what the call
  \<^verbatim>\<open>storage.DefaultStoreOptions(rootless.IsRootless(), rootless.GetRootlessUID())\<close>
  returns on the host: an error or the host's default store options. The steps of the
  body are the successive bindings; \<open>setField\<close> and \<open>graphDriverChanged\<close> are the two
  local flags of the source.
\<close>

definition WithStorageConfig ::
  "(error + StoreOptions) \<Rightarrow> StoreOptions \<Rightarrow> Runtime \<Rightarrow> Runtime applied" where
  "WithStorageConfig DefaultStoreOptions config rt =
     (if rt_valid rt then (Some ErrRuntimeFinalized, rt)
      else
        let rt1 = (if RunRoot config \<noteq> [] then
                     rt\<lparr>storageConfig := (storageConfig rt)\<lparr>RunRoot := RunRoot config\<rparr>,
                        rt_storageSet := (rt_storageSet rt)\<lparr>RunRootSet := True\<rparr>\<rparr>
                   else rt);
            rt2 = (if GraphRoot config \<noteq> [] then
                     rt1\<lparr>storageConfig := (storageConfig rt1)\<lparr>GraphRoot := GraphRoot config\<rparr>,
                         rt_config := (rt_config rt1)\<lparr>Engine := (Engine (rt_config rt1))
                           \<lparr>StaticDir := filepath_Join (GraphRoot config) ''libpod'',
                            VolumePath := filepath_Join (GraphRoot config) ''volumes''\<rparr>\<rparr>,
                         rt_storageSet := (rt_storageSet rt1)
                           \<lparr>GraphRootSet := True, StaticDirSet := True, VolumePathSet := True\<rparr>\<rparr>
                   else rt1);
            graphDriverChanged = (GraphDriverName config \<noteq> []);
            rt3 = (if GraphDriverName config \<noteq> [] then
                     rt2\<lparr>storageConfig := (storageConfig rt2)
                           \<lparr>GraphDriverName := GraphDriverName config\<rparr>,
                         rt_storageSet := (rt_storageSet rt2)\<lparr>GraphDriverNameSet := True\<rparr>\<rparr>
                   else rt2);
            rt4 = (case GraphDriverOptions config of
                     None \<Rightarrow> rt3
                   | Some opts \<Rightarrow>
                       if graphDriverChanged then
                         rt3\<lparr>storageConfig := (storageConfig rt3)
                               \<lparr>GraphDriverOptions := Some (map (\<lambda>x. x) opts)\<rparr>\<rparr>
                       else
                         rt3\<lparr>storageConfig := (storageConfig rt3)
                               \<lparr>GraphDriverOptions := Some opts\<rparr>\<rparr>);
            rt5 = (case StoreUIDMap config of
                     None \<Rightarrow> rt4
                   | Some m \<Rightarrow> rt4\<lparr>storageConfig := (storageConfig rt4)\<lparr>StoreUIDMap := Some m\<rparr>\<rparr>);
            rt6 = (case StoreGIDMap config of
                     None \<Rightarrow> rt5
                   | Some m \<Rightarrow> rt5\<lparr>storageConfig := (storageConfig rt5)\<lparr>StoreGIDMap := Some m\<rparr>\<rparr>);
            setField = (RunRoot config \<noteq> [] \<or> GraphRoot config \<noteq> [] \<or> graphDriverChanged
                        \<or> GraphDriverOptions config \<noteq> None)
        in if setField then
             (case DefaultStoreOptions of
                Inl err \<Rightarrow> (Some err, rt6)
              | Inr storeOpts \<Rightarrow>
                  let rt7 = (if GraphRoot (storageConfig rt6) = [] then
                               rt6\<lparr>storageConfig := (storageConfig rt6)
                                     \<lparr>GraphRoot := GraphRoot storeOpts\<rparr>\<rparr>
                             else rt6);
                      rt8 = (if RunRoot (storageConfig rt7) = [] then
                               rt7\<lparr>storageConfig := (storageConfig rt7)
                                     \<lparr>RunRoot := RunRoot storeOpts\<rparr>\<rparr>
                             else rt7)
                  in (None, rt8))
           else (None, rt6))"

definition WithNoStore :: "Runtime \<Rightarrow> Runtime applied" where
  "WithNoStore rt = (None, rt\<lparr>noStore := True\<rparr>)"

definition WithNoPivotRoot :: "Runtime \<Rightarrow> Runtime applied" where
  "WithNoPivotRoot rt =
     (if rt_valid rt then (Some ErrRuntimeFinalized, rt)
      else (None, rt\<lparr>rt_config := (rt_config rt)\<lparr>Engine := (Engine (rt_config rt))
                        \<lparr>NoPivotRoot := True\<rparr>\<rparr>\<rparr>))"

definition WithNamespace :: "string \<Rightarrow> Runtime \<Rightarrow> Runtime applied" where
  "WithNamespace ns rt =
     (if rt_valid rt then (Some ErrRuntimeFinalized, rt)
      else (None, rt\<lparr>rt_config := (rt_config rt)\<lparr>Engine := (Engine (rt_config rt))
                        \<lparr>Namespace := ns\<rparr>\<rparr>\<rparr>))"

definition WithDefaultInfraImage :: "string \<Rightarrow> Runtime \<Rightarrow> Runtime applied" where
  "WithDefaultInfraImage img rt =
     (if rt_valid rt then (Some ErrRuntimeFinalized, rt)
      else (None, rt\<lparr>rt_config := (rt_config rt)\<lparr>Engine := (Engine (rt_config rt))
                        \<lparr>InfraImage := img\<rparr>\<rparr>\<rparr>))"

definition WithDefaultInfraCommand :: "string \<Rightarrow> Runtime \<Rightarrow> Runtime applied" where
  "WithDefaultInfraCommand cmd rt =
     (if rt_valid rt then (Some ErrRuntimeFinalized, rt)
      else (None, rt\<lparr>rt_config := (rt_config rt)\<lparr>Engine := (Engine (rt_config rt))
                        \<lparr>InfraCommand := cmd\<rparr>\<rparr>\<rparr>))"

definition WithDefaultInfraName :: "string \<Rightarrow> Runtime \<Rightarrow> Runtime applied" where
  "WithDefaultInfraName name rt =
     (if rt_valid rt then (Some ErrRuntimeFinalized, rt)
      else (None, rt\<lparr>rt_config := (rt_config rt)\<lparr>Engine := (Engine (rt_config rt))
                        \<lparr>InfraImage := name\<rparr>\<rparr>\<rparr>))"

definition WithRenumber :: "Runtime \<Rightarrow> Runtime applied" where
  "WithRenumber rt =
     (if rt_valid rt then (Some ErrRuntimeFinalized, rt)
      else (None, rt\<lparr>doRenumber := True\<rparr>))"

definition WithMigrate :: "Runtime \<Rightarrow> Runtime applied" where
  "WithMigrate rt =
     (if rt_valid rt then (Some ErrRuntimeFinalized, rt)
      else (None, rt\<lparr>doMigrate := True\<rparr>))"

definition WithEnableSDNotify :: "Runtime \<Rightarrow> Runtime applied" where
  "WithEnableSDNotify rt =
     (None, rt\<lparr>rt_config := (rt_config rt)\<lparr>Engine := (Engine (rt_config rt))
                  \<lparr>SDNotify := True\<rparr>\<rparr>\<rparr>)"

section \<open>Container creation options\<close>

text \<open>
  Modelled from the spec: the accessor methods \<^verbatim>\<open>ID\<close> and \<^verbatim>\<open>IDMappings\<close> of
  \<^verbatim>\<open>Container\<close> are declared outside the sources. The spec has every entity hold its
  own configuration and be referenced by its string ID, so they read the fields of the
  container's config.
\<close>

definition Container_ID :: "Container \<Rightarrow> string" where
  "Container_ID c = ID (ctr_config c)"

definition Container_IDMappings :: "Container \<Rightarrow> IDMappingOptions" where
  "Container_IDMappings c = IDMappings (ctr_config c)"

text \<open>
  Modelled from the spec: \<^verbatim>\<open>checkDependencyContainer\<close> is called by the options below
  but defined outside the sources. The spec gives its algorithm: fail if the referenced
  container is nil; fail if the referencing container already belongs to a pod and the
  referenced container does not belong to the same pod; both failures are dependency
  errors. The pointer argument is an optional container, \<open>None\<close> for \<^verbatim>\<open>nil\<close>.
\<close>

definition checkDependencyContainer :: "Container option \<Rightarrow> Container \<Rightarrow> error option" where
  "checkDependencyContainer depCtr ctr =
     (case depCtr of
        None \<Rightarrow> Some ErrDependency
      | Some dep \<Rightarrow>
          if Pod (ctr_config ctr) \<noteq> [] \<and> Pod (ctr_config dep) \<noteq> Pod (ctr_config ctr)
          then Some ErrDependency
          else None)"

text \<open>
  Modelled from the spec: \<^verbatim>\<open>JSONDeepCopy\<close> is defined outside the sources. The spec
  says the ID-mapping table is deep-copied from the referenced container's table, so the
  copy succeeds with a value equal to its source.
\<close>

definition JSONDeepCopy :: "IDMappingOptions \<Rightarrow> error + IDMappingOptions" where
  "JSONDeepCopy from = Inr from"

text \<open>
  The spec generator of \<^verbatim>\<open>runtime-tools\<close> wraps a pointer to the spec; the model of a
  generator is that pointer's target, \<open>None\<close> when the pointer is nil. Clearing does
  nothing without a spec or without its Linux section; adding a mapping allocates
  whatever is missing and appends.
\<close>

type_synonym Generator = "Spec option"

definition NewFromSpec :: "Spec option \<Rightarrow> Generator" where
  "NewFromSpec spec = spec"

definition ClearLinuxUIDMappings :: "Generator \<Rightarrow> Generator" where
  "ClearLinuxUIDMappings g =
     (case g of
        None \<Rightarrow> g
      | Some s \<Rightarrow>
          (case SpecLinux s of
             None \<Rightarrow> g
           | Some l \<Rightarrow> Some (s\<lparr>SpecLinux := Some (l\<lparr>UIDMappings := []\<rparr>)\<rparr>)))"

definition ClearLinuxGIDMappings :: "Generator \<Rightarrow> Generator" where
  "ClearLinuxGIDMappings g =
     (case g of
        None \<Rightarrow> g
      | Some s \<Rightarrow>
          (case SpecLinux s of
             None \<Rightarrow> g
           | Some l \<Rightarrow> Some (s\<lparr>SpecLinux := Some (l\<lparr>GIDMappings := []\<rparr>)\<rparr>)))"

definition initConfigLinux :: "Generator \<Rightarrow> Spec \<times> Linux" where
  "initConfigLinux g =
     (let s = (case g of None \<Rightarrow> \<lparr>SpecLinux = None\<rparr> | Some s \<Rightarrow> s);
          l = (case SpecLinux s of
                 None \<Rightarrow> \<lparr>UIDMappings = [], GIDMappings = []\<rparr>
               | Some l \<Rightarrow> l)
      in (s, l))"

definition AddLinuxUIDMapping :: "Generator \<Rightarrow> uint32 \<Rightarrow> uint32 \<Rightarrow> uint32 \<Rightarrow> Generator" where
  "AddLinuxUIDMapping g hid cid sz =
     (let idMapping = \<lparr>LinuxContainerID = cid, LinuxHostID = hid, LinuxSize = sz\<rparr>;
          (s, l) = initConfigLinux g
      in Some (s\<lparr>SpecLinux := Some (l\<lparr>UIDMappings := UIDMappings l @ [idMapping]\<rparr>)\<rparr>))"

definition AddLinuxGIDMapping :: "Generator \<Rightarrow> uint32 \<Rightarrow> uint32 \<Rightarrow> uint32 \<Rightarrow> Generator" where
  "AddLinuxGIDMapping g hid cid sz =
     (let idMapping = \<lparr>LinuxContainerID = cid, LinuxHostID = hid, LinuxSize = sz\<rparr>;
          (s, l) = initConfigLinux g
      in Some (s\<lparr>SpecLinux := Some (l\<lparr>GIDMappings := GIDMappings l @ [idMapping]\<rparr>)\<rparr>))"

text \<open>The mappings a generator holds; none without a spec or without its Linux section.\<close>

definition LinuxUIDMappings :: "Generator \<Rightarrow> LinuxIDMapping list" where
  "LinuxUIDMappings g =
     (case g of
        None \<Rightarrow> []
      | Some s \<Rightarrow> (case SpecLinux s of None \<Rightarrow> [] | Some l \<Rightarrow> UIDMappings l))"

definition LinuxGIDMappings :: "Generator \<Rightarrow> LinuxIDMapping list" where
  "LinuxGIDMappings g =
     (case g of
        None \<Rightarrow> []
      | Some s \<Rightarrow> (case SpecLinux s of None \<Rightarrow> [] | Some l \<Rightarrow> GIDMappings l))"

definition WithStopTimeout :: "go_uint \<Rightarrow> Container \<Rightarrow> Container applied" where
  "WithStopTimeout timeout ctr =
     (if ctr_valid ctr then (Some ErrCtrFinalized, ctr)
      else (None, ctr\<lparr>ctr_config := (ctr_config ctr)\<lparr>StopTimeout := timeout\<rparr>\<rparr>))"

text \<open>
  \<^verbatim>\<open>WithStopSignal\<close>: \<^verbatim>\<open>syscall.Signal\<close> is a Go \<^verbatim>\<open>int\<close>, compared as a signed
  number; \<^verbatim>\<open>uint(signal)\<close> keeps the bits.
\<close>

definition WithStopSignal :: "go_int \<Rightarrow> Container \<Rightarrow> Container applied" where
  "WithStopSignal signal ctr =
     (if ctr_valid ctr then (Some ErrCtrFinalized, ctr)
      else if signal = 0 then
        (Some (Wrapf ErrInvalidArg ''stop signal cannot be 0''), ctr)
      else if 64 < sint signal then
        (Some (Wrapf ErrInvalidArg ''stop signal cannot be greater than 64 (SIGRTMAX)''), ctr)
      else (None, ctr\<lparr>ctr_config := (ctr_config ctr)\<lparr>StopSignal := signal\<rparr>\<rparr>))"

definition WithIPCNSFrom :: "Container option \<Rightarrow> Container \<Rightarrow> Container applied" where
  "WithIPCNSFrom nsCtr ctr =
     (if ctr_valid ctr then (Some ErrCtrFinalized, ctr)
      else
        (case checkDependencyContainer nsCtr ctr of
           Some err \<Rightarrow> (Some err, ctr)
         | None \<Rightarrow>
             (case nsCtr of
                None \<Rightarrow> (Some (Panic ''nil pointer dereference''), ctr)
              | Some ns \<Rightarrow>
                  (None, ctr\<lparr>ctr_config := (ctr_config ctr)\<lparr>IPCNsCtr := Container_ID ns\<rparr>\<rparr>))))"

definition WithNetNSFrom :: "Container option \<Rightarrow> Container \<Rightarrow> Container applied" where
  "WithNetNSFrom nsCtr ctr =
     (if ctr_valid ctr then (Some ErrCtrFinalized, ctr)
      else
        (case checkDependencyContainer nsCtr ctr of
           Some err \<Rightarrow> (Some err, ctr)
         | None \<Rightarrow>
             (case nsCtr of
                None \<Rightarrow> (Some (Panic ''nil pointer dereference''), ctr)
              | Some ns \<Rightarrow>
                  (None, ctr\<lparr>ctr_config := (ctr_config ctr)\<lparr>NetNsCtr := Container_ID ns\<rparr>\<rparr>))))"

text \<open>
  \<^verbatim>\<open>WithUserNSFrom\<close>. \<open>userns_generator\<close> is the generator \<^verbatim>\<open>g\<close> of the body after
  its two clear-and-add loops, started from the spec pointer of the container's config
  and fed the referenced container's maps. The generator shares the spec with the
  container's config when that pointer is not nil; a spec the generator had to allocate
  itself is not reachable from the config afterwards.
\<close>

definition userns_generator :: "Spec option \<Rightarrow> IDMappingOptions \<Rightarrow> Generator" where
  "userns_generator spec idmappings =
     (let g = NewFromSpec spec;
          g1 = ClearLinuxUIDMappings g;
          g2 = foldl (\<lambda>g uidmap. AddLinuxUIDMapping g (ucast (HostID uidmap))
                        (ucast (ContainerID uidmap)) (ucast (Size uidmap)))
                 g1 (UIDMap idmappings);
          g3 = ClearLinuxGIDMappings g2;
          g4 = foldl (\<lambda>g gidmap. AddLinuxGIDMapping g (ucast (HostID gidmap))
                        (ucast (ContainerID gidmap)) (ucast (Size gidmap)))
                 g3 (GIDMap idmappings)
      in g4)"

definition WithUserNSFrom :: "Container option \<Rightarrow> Container \<Rightarrow> Container applied" where
  "WithUserNSFrom nsCtr ctr =
     (if ctr_valid ctr then (Some ErrCtrFinalized, ctr)
      else
        (case checkDependencyContainer nsCtr ctr of
           Some err \<Rightarrow> (Some err, ctr)
         | None \<Rightarrow>
             (case nsCtr of
                None \<Rightarrow> (Some (Panic ''nil pointer dereference''), ctr)
              | Some ns \<Rightarrow>
                  let ctr1 = ctr\<lparr>ctr_config := (ctr_config ctr)\<lparr>UserNsCtr := Container_ID ns\<rparr>\<rparr>
                  in (case JSONDeepCopy (Container_IDMappings ns) of
                        Inl err \<Rightarrow> (Some err, ctr1)
                      | Inr copied \<Rightarrow>
                          let ctr2 = ctr1\<lparr>ctr_config := (ctr_config ctr1)\<lparr>IDMappings := copied\<rparr>\<rparr>;
                              g = userns_generator (CtrSpec (ctr_config ctr2))
                                    (IDMappings (ctr_config ns))
                          in (None,
                              (case CtrSpec (ctr_config ctr2) of
                                 None \<Rightarrow> ctr2
                               | Some s \<Rightarrow> ctr2\<lparr>ctr_config := (ctr_config ctr2)\<lparr>CtrSpec := g\<rparr>\<rparr>))))))"

text \<open>\<^verbatim>\<open>WithDependencyCtrs\<close>: the loop collects the IDs and stops at the first rejected one.\<close>

fun dependency_ids :: "Container option list \<Rightarrow> Container \<Rightarrow> string list \<Rightarrow> error + string list" where
  "dependency_ids [] ctr deps = Inr deps"
| "dependency_ids (dep # rest) ctr deps =
     (case checkDependencyContainer dep ctr of
        Some err \<Rightarrow> Inl err
      | None \<Rightarrow>
          (case dep of
             None \<Rightarrow> Inl (Panic ''nil pointer dereference'')
           | Some d \<Rightarrow> dependency_ids rest ctr (deps @ [Container_ID d])))"

definition WithDependencyCtrs :: "Container option list \<Rightarrow> Container \<Rightarrow> Container applied" where
  "WithDependencyCtrs ctrs ctr =
     (if ctr_valid ctr then (Some ErrCtrFinalized, ctr)
      else
        (case dependency_ids ctrs ctr [] of
           Inl err \<Rightarrow> (Some err, ctr)
         | Inr deps \<Rightarrow> (None, ctr\<lparr>ctr_config := (ctr_config ctr)\<lparr>Dependencies := deps\<rparr>\<rparr>)))"

text \<open>
  \<^verbatim>\<open>WithLogDriver\<close> switches on five string constants of package \<^verbatim>\<open>define\<close>, which
  are declared outside the sources; the model takes them as a parameter. The cases are
  tried in the order of the source: the empty string first.
\<close>

record LogDriverNames =
  JournaldLogging :: string
  KubernetesLogging :: string
  JSONLogging :: string
  NoLogging :: string
  PassthroughLogging :: string

definition WithLogDriver :: "LogDriverNames \<Rightarrow> string \<Rightarrow> Container \<Rightarrow> Container applied" where
  "WithLogDriver define driver ctr =
     (if ctr_valid ctr then (Some ErrCtrFinalized, ctr)
      else if driver = [] then
        (Some (Wrapf ErrInvalidArg ''log driver must be set''), ctr)
      else if driver = JournaldLogging define \<or> driver = KubernetesLogging define
              \<or> driver = JSONLogging define \<or> driver = NoLogging define
              \<or> driver = PassthroughLogging define then
        (None, ctr\<lparr>ctr_config := (ctr_config ctr)\<lparr>LogDriver := driver\<rparr>\<rparr>)
      else (Some (Wrapf ErrInvalidArg ''invalid log driver''), ctr))"

text \<open>
  \<^verbatim>\<open>WithDNS\<close>. \<^verbatim>\<open>net.ParseIP\<close> is a parameter: it gives the parsed address, or
  \<open>None\<close> for the nil it returns on a string that is no IP literal. The loop builds
  the local slice \<^verbatim>\<open>dns\<close> and returns at the first entry that does not parse.
\<close>

fun parse_dns :: "(string \<Rightarrow> IP option) \<Rightarrow> string list \<Rightarrow> IP list \<Rightarrow> error + IP list" where
  "parse_dns ParseIP [] dns = Inr dns"
| "parse_dns ParseIP (i # rest) dns =
     (case ParseIP i of
        None \<Rightarrow> Inl (Wrapf ErrInvalidArg (''invalid IP address '' @ i))
      | Some result \<Rightarrow> parse_dns ParseIP rest (dns @ [result]))"

definition WithDNS :: "(string \<Rightarrow> IP option) \<Rightarrow> string list \<Rightarrow> Container \<Rightarrow> Container applied" where
  "WithDNS ParseIP dnsServers ctr =
     (if ctr_valid ctr then (Some ErrCtrFinalized, ctr)
      else
        (case parse_dns ParseIP dnsServers [] of
           Inl err \<Rightarrow> (Some err, ctr)
         | Inr dns \<Rightarrow>
             (None, ctr\<lparr>ctr_config := (ctr_config ctr)
                          \<lparr>DNSServer := DNSServer (ctr_config ctr) @ dns\<rparr>\<rparr>)))"

definition WithDNSOption :: "string list \<Rightarrow> Container \<Rightarrow> Container applied" where
  "WithDNSOption dnsOptions ctr =
     (if ctr_valid ctr then (Some ErrCtrFinalized, ctr)
      else if UseImageResolvConf (ctr_config ctr) then
        (Some (Wrapf ErrInvalidArg
           ''cannot add DNS options if container will not create /etc/resolv.conf''), ctr)
      else (None, ctr\<lparr>ctr_config := (ctr_config ctr)
                        \<lparr>DNSOption := DNSOption (ctr_config ctr) @ dnsOptions\<rparr>\<rparr>))"

definition WithUseImageResolvConf :: "Container \<Rightarrow> Container applied" where
  "WithUseImageResolvConf ctr =
     (if ctr_valid ctr then (Some ErrCtrFinalized, ctr)
      else (None, ctr\<lparr>ctr_config := (ctr_config ctr)\<lparr>UseImageResolvConf := True\<rparr>\<rparr>))"

definition WithUseImageHosts :: "Container \<Rightarrow> Container applied" where
  "WithUseImageHosts ctr =
     (if ctr_valid ctr then (Some ErrCtrFinalized, ctr)
      else (None, ctr\<lparr>ctr_config := (ctr_config ctr)\<lparr>UseImageHosts := True\<rparr>\<rparr>))"

text \<open>
  \<^verbatim>\<open>WithEnvSecrets\<close>. Its first statement replaces the map of the config by a fresh
  one; the check of the valid flag comes second. \<open>SecretsManager\<close> is what
  \<^verbatim>\<open>ctr.runtime.SecretsManager()\<close> returns: an error, or the manager's lookup function.
  The argument map is given as its entries in the order the range statement visits them.
\<close>

fun lookup_secrets ::
  "(string \<Rightarrow> error + Secret) \<Rightarrow> (string \<times> string) list \<Rightarrow> Container \<Rightarrow> Container applied" where
  "lookup_secrets Lookup [] ctr = (None, ctr)"
| "lookup_secrets Lookup ((target, src) # rest) ctr =
     (case Lookup src of
        Inl err \<Rightarrow> (Some err, ctr)
      | Inr secr \<Rightarrow>
          lookup_secrets Lookup rest
            (ctr\<lparr>ctr_config := (ctr_config ctr)
                  \<lparr>EnvSecrets := (EnvSecrets (ctr_config ctr))(target \<mapsto> secr)\<rparr>\<rparr>))"

definition WithEnvSecrets ::
  "(error + (string \<Rightarrow> error + Secret)) \<Rightarrow> (string \<times> string) list \<Rightarrow> Container
     \<Rightarrow> Container applied" where
  "WithEnvSecrets SecretsManager envSecrets ctr =
     (let ctr1 = ctr\<lparr>ctr_config := (ctr_config ctr)\<lparr>EnvSecrets := Map.empty\<rparr>\<rparr>
      in if ctr_valid ctr1 then (Some ErrCtrFinalized, ctr1)
         else
           (case SecretsManager of
              Inl err \<Rightarrow> (Some err, ctr1)
            | Inr Lookup \<Rightarrow> lookup_secrets Lookup envSecrets ctr1))"

section \<open>Volume creation options\<close>

definition WithVolumeDriver :: "string \<Rightarrow> Volume \<Rightarrow> Volume applied" where
  "WithVolumeDriver driver volume =
     (if vol_valid volume then (Some ErrVolumeFinalized, volume)
      else (None, volume\<lparr>vol_config := (vol_config volume)\<lparr>Driver := driver\<rparr>\<rparr>))"

definition WithVolumeUID :: "go_int \<Rightarrow> Volume \<Rightarrow> Volume applied" where
  "WithVolumeUID uid volume =
     (if vol_valid volume then (Some ErrVolumeFinalized, volume)
      else (None, volume\<lparr>vol_config := (vol_config volume)\<lparr>VolumeUID := uid\<rparr>\<rparr>))"

definition WithVolumeGID :: "go_int \<Rightarrow> Volume \<Rightarrow> Volume applied" where
  "WithVolumeGID gid volume =
     (if vol_valid volume then (Some ErrVolumeFinalized, volume)
      else (None, volume\<lparr>vol_config := (vol_config volume)\<lparr>VolumeGID := gid\<rparr>\<rparr>))"

definition WithVolumeNoChown :: "Volume \<Rightarrow> Volume applied" where
  "WithVolumeNoChown volume =
     (if vol_valid volume then (Some ErrVolumeFinalized, volume)
      else (None, volume\<lparr>vol_state := (vol_state volume)\<lparr>NeedsChown := False\<rparr>\<rparr>))"

definition withSetAnon :: "Volume \<Rightarrow> Volume applied" where
  "withSetAnon volume =
     (if vol_valid volume then (Some ErrVolumeFinalized, volume)
      else (None, volume\<lparr>vol_config := (vol_config volume)\<lparr>IsAnon := True\<rparr>\<rparr>))"

section \<open>Pod creation options\<close>

definition WithPodCgroupParent :: "string \<Rightarrow> Pod \<Rightarrow> Pod applied" where
  "WithPodCgroupParent path pod =
     (if pod_valid pod then (Some ErrPodFinalized, pod)
      else (None, pod\<lparr>pod_config := (pod_config pod)\<lparr>PodCgroupParent := path\<rparr>\<rparr>))"

definition WithPodCgroups :: "Pod \<Rightarrow> Pod applied" where
  "WithPodCgroups pod =
     (if pod_valid pod then (Some ErrPodFinalized, pod)
      else (None, pod\<lparr>pod_config := (pod_config pod)\<lparr>UsePodCgroup := True\<rparr>\<rparr>))"

definition WithPodIPC :: "Pod \<Rightarrow> Pod applied" where
  "WithPodIPC pod =
     (if pod_valid pod then (Some ErrPodFinalized, pod)
      else (None, pod\<lparr>pod_config := (pod_config pod)\<lparr>UsePodIPC := True\<rparr>\<rparr>))"

definition WithPodNet :: "Pod \<Rightarrow> Pod applied" where
  "WithPodNet pod =
     (if pod_valid pod then (Some ErrPodFinalized, pod)
      else (None, pod\<lparr>pod_config := (pod_config pod)\<lparr>UsePodNet := True\<rparr>\<rparr>))"

definition WithInfraContainer :: "Pod \<Rightarrow> Pod applied" where
  "WithInfraContainer pod =
     (if pod_valid pod then (Some ErrPodFinalized, pod)
      else (None, pod\<lparr>pod_config := (pod_config pod)\<lparr>HasInfra := True\<rparr>\<rparr>))"

section \<open>Values used to state and to evaluate the properties\<close>

text \<open>The set of names \<^verbatim>\<open>WithLogDriver\<close> lists in its accepting case.\<close>

definition log_drivers :: "LogDriverNames \<Rightarrow> string set" where
  "log_drivers define =
     {JournaldLogging define, KubernetesLogging define, JSONLogging define,
      NoLogging define, PassthroughLogging define}"

text \<open>
  The entry \<^verbatim>\<open>WithUserNSFrom\<close> hands to the generator for one entry of an ID map:
  each field converted with \<^verbatim>\<open>uint32(...)\<close>.
\<close>

definition LinuxIDMapping_of :: "IDMap \<Rightarrow> LinuxIDMapping" where
  "LinuxIDMapping_of m =
     \<lparr>LinuxContainerID = ucast (ContainerID m), LinuxHostID = ucast (HostID m),
      LinuxSize = ucast (Size m)\<rparr>"

text \<open>Go's zero values of the entities: what a freshly allocated entity holds.\<close>

definition zero_StoreOptions :: StoreOptions where
  "zero_StoreOptions =
     \<lparr>RunRoot = [], GraphRoot = [], GraphDriverName = [], GraphDriverOptions = None,
      StoreUIDMap = None, StoreGIDMap = None\<rparr>"

definition zero_Runtime :: Runtime where
  "zero_Runtime =
     \<lparr>rt_config = \<lparr>Engine = \<lparr>StaticDir = [], VolumePath = [], TmpDir = [], Namespace = [],
                               InfraImage = [], InfraCommand = [], NoPivotRoot = False,
                               SDNotify = False\<rparr>\<rparr>,
      storageConfig = zero_StoreOptions,
      rt_storageSet = \<lparr>RunRootSet = False, GraphRootSet = False, StaticDirSet = False,
                       VolumePathSet = False, GraphDriverNameSet = False\<rparr>,
      rt_valid = False, noStore = False, doRenumber = False, doMigrate = False\<rparr>"

definition zero_IDMappingOptions :: IDMappingOptions where
  "zero_IDMappingOptions =
     \<lparr>HostUIDMapping = False, HostGIDMapping = False, UIDMap = [], GIDMap = [],
      AutoUserNs = False\<rparr>"

definition zero_Container :: Container where
  "zero_Container =
     \<lparr>ctr_config =
        \<lparr>CtrSpec = None, ID = [], Pod = [], IDMappings = zero_IDMappingOptions,
         Dependencies = [], IPCNsCtr = [], NetNsCtr = [], UserNsCtr = [], StopSignal = 0,
         StopTimeout = 0, LogDriver = [], DNSServer = [], DNSOption = [],
         UseImageResolvConf = False, UseImageHosts = False, EnvSecrets = Map.empty\<rparr>,
      ctr_valid = False\<rparr>"

definition zero_Volume :: Volume where
  "zero_Volume =
     \<lparr>vol_config = \<lparr>Driver = [], VolumeUID = 0, VolumeGID = 0, IsAnon = False\<rparr>,
      vol_state = \<lparr>NeedsChown = False\<rparr>,
      vol_valid = False\<rparr>"

definition zero_Pod :: Pod where
  "zero_Pod =
     \<lparr>pod_config = \<lparr>PodCgroupParent = [], UsePodCgroup = False, UsePodIPC = False,
                    UsePodNet = False, HasInfra = False\<rparr>,
      pod_valid = False\<rparr>"

text \<open>Default store options of a rootful host, as the storage library computes them.\<close>

definition rootful_StoreOptions :: StoreOptions where
  "rootful_StoreOptions =
     zero_StoreOptions\<lparr>RunRoot := ''/run/containers/storage'',
                       GraphRoot := ''/var/lib/containers/storage''\<rparr>"

text \<open>
  \<^verbatim>\<open>net.ParseIP\<close> on the strings used below: two IPv4 literals, which it returns in
  their 16-byte form, and any other string taken as no IP literal.
\<close>

definition example_ParseIP :: "string \<Rightarrow> IP option" where
  "example_ParseIP s =
     (if s = ''10.0.0.1'' then Some [0, 0, 0, 0, 0, 0, 0, 0, 0, 0, 255, 255, 10, 0, 0, 1]
      else if s = ''10.0.0.2'' then Some [0, 0, 0, 0, 0, 0, 0, 0, 0, 0, 255, 255, 10, 0, 0, 2]
      else None)"

definition example_LogDriverNames :: LogDriverNames where
  "example_LogDriverNames =
     \<lparr>JournaldLogging = ''journald'', KubernetesLogging = ''kubernetes'',
      JSONLogging = ''json'', NoLogging = ''none'', PassthroughLogging = ''passthrough''\<rparr>"

text \<open>Two containers of pod \<^verbatim>\<open>p1\<close> and one of pod \<^verbatim>\<open>p2\<close>.\<close>

definition example_nsCtr :: Container where
  "example_nsCtr =
     zero_Container\<lparr>ctr_config := (ctr_config zero_Container)
       \<lparr>ID := ''a1'', Pod := ''p1'',
        IDMappings := zero_IDMappingOptions
          \<lparr>UIDMap := [\<lparr>ContainerID = 0, HostID = 100000, Size = 65536\<rparr>],
           GIDMap := [\<lparr>ContainerID = 0, HostID = 200000, Size = 1\<rparr>,
                      \<lparr>ContainerID = 1, HostID = 300000, Size = 65535\<rparr>]\<rparr>\<rparr>\<rparr>"

definition example_ctr :: Container where
  "example_ctr =
     zero_Container\<lparr>ctr_config := (ctr_config zero_Container)
       \<lparr>ID := ''b1'', Pod := ''p1'',
        CtrSpec := Some \<lparr>SpecLinux = Some
          \<lparr>UIDMappings = [\<lparr>LinuxContainerID = 0, LinuxHostID = 1000, LinuxSize = 1\<rparr>],
           GIDMappings = []\<rparr>\<rparr>\<rparr>\<rparr>"

definition example_other_pod_ctr :: Container where
  "example_other_pod_ctr =
     zero_Container\<lparr>ctr_config := (ctr_config zero_Container)\<lparr>ID := ''c1'', Pod := ''p2''\<rparr>\<rparr>"

text \<open>A secrets manager that knows one secret.\<close>

definition example_Lookup :: "string \<Rightarrow> error + Secret" where
  "example_Lookup src =
     (if src = ''api-token'' then Inr (Secret ''api-token'' ''5f2a'')
      else Inl (ErrExternal ''no such secret''))"

text \<open>A finalized container whose config holds one environment secret.\<close>

definition finalized_ctr :: Container where
  "finalized_ctr =
     zero_Container\<lparr>ctr_config := (ctr_config zero_Container)
       \<lparr>ID := ''f1'', EnvSecrets := [''TOKEN'' \<mapsto> Secret ''api-token'' ''5f2a'']\<rparr>,
       ctr_valid := True\<rparr>"

section \<open>Finalized entities\<close>

text \<open>
  The options that test the valid flag first hand a finalized entity back untouched,
  with the entity's finalized error.
\<close>

lemma finalized_runtime_guarded:
  assumes "rt_valid rt"
  shows "WithStorageConfig DefaultStoreOptions config rt = (Some ErrRuntimeFinalized, rt)"
    and "WithNoPivotRoot rt = (Some ErrRuntimeFinalized, rt)"
    and "WithNamespace ns rt = (Some ErrRuntimeFinalized, rt)"
    and "WithDefaultInfraImage img rt = (Some ErrRuntimeFinalized, rt)"
    and "WithDefaultInfraCommand cmd rt = (Some ErrRuntimeFinalized, rt)"
    and "WithDefaultInfraName name rt = (Some ErrRuntimeFinalized, rt)"
    and "WithRenumber rt = (Some ErrRuntimeFinalized, rt)"
    and "WithMigrate rt = (Some ErrRuntimeFinalized, rt)"
  using assms
  by (simp_all add: WithStorageConfig_def WithNoPivotRoot_def WithNamespace_def
      WithDefaultInfraImage_def WithDefaultInfraCommand_def WithDefaultInfraName_def
      WithRenumber_def WithMigrate_def)

lemma finalized_container_guarded:
  assumes "ctr_valid ctr"
  shows "WithStopTimeout timeout ctr = (Some ErrCtrFinalized, ctr)"
    and "WithStopSignal signal ctr = (Some ErrCtrFinalized, ctr)"
    and "WithIPCNSFrom nsCtr ctr = (Some ErrCtrFinalized, ctr)"
    and "WithNetNSFrom nsCtr ctr = (Some ErrCtrFinalized, ctr)"
    and "WithUserNSFrom nsCtr ctr = (Some ErrCtrFinalized, ctr)"
    and "WithDependencyCtrs ctrs ctr = (Some ErrCtrFinalized, ctr)"
    and "WithLogDriver define driver ctr = (Some ErrCtrFinalized, ctr)"
    and "WithDNS ParseIP dnsServers ctr = (Some ErrCtrFinalized, ctr)"
    and "WithDNSOption dnsOptions ctr = (Some ErrCtrFinalized, ctr)"
    and "WithUseImageResolvConf ctr = (Some ErrCtrFinalized, ctr)"
    and "WithUseImageHosts ctr = (Some ErrCtrFinalized, ctr)"
  using assms
  by (simp_all add: WithStopTimeout_def WithStopSignal_def WithIPCNSFrom_def
      WithNetNSFrom_def WithUserNSFrom_def WithDependencyCtrs_def WithLogDriver_def
      WithDNS_def WithDNSOption_def WithUseImageResolvConf_def WithUseImageHosts_def)

lemma finalized_volume_guarded:
  assumes "vol_valid volume"
  shows "WithVolumeDriver driver volume = (Some ErrVolumeFinalized, volume)"
    and "WithVolumeUID uid volume = (Some ErrVolumeFinalized, volume)"
    and "WithVolumeGID gid volume = (Some ErrVolumeFinalized, volume)"
    and "withSetAnon volume = (Some ErrVolumeFinalized, volume)"
  using assms
  by (simp_all add: WithVolumeDriver_def WithVolumeUID_def WithVolumeGID_def withSetAnon_def)

lemma finalized_pod_guarded:
  assumes "pod_valid pod"
  shows "WithPodCgroupParent path pod = (Some ErrPodFinalized, pod)"
    and "WithPodCgroups pod = (Some ErrPodFinalized, pod)"
    and "WithPodIPC pod = (Some ErrPodFinalized, pod)"
    and "WithPodNet pod = (Some ErrPodFinalized, pod)"
    and "WithInfraContainer pod = (Some ErrPodFinalized, pod)"
  using assms
  by (simp_all add: WithPodCgroupParent_def WithPodCgroups_def WithPodIPC_def
      WithPodNet_def WithInfraContainer_def)

text \<open>
  Three options do not: \<^verbatim>\<open>WithEnvSecrets\<close> replaces the secrets map before it tests
  the flag, and \<^verbatim>\<open>WithNoStore\<close> and \<^verbatim>\<open>WithEnableSDNotify\<close> never test it.
\<close>

lemma WithEnvSecrets_finalized:
  "ctr_valid ctr \<Longrightarrow>
   WithEnvSecrets SecretsManager envSecrets ctr =
     (Some ErrCtrFinalized, ctr\<lparr>ctr_config := (ctr_config ctr)\<lparr>EnvSecrets := Map.empty\<rparr>\<rparr>)"
  by (simp add: WithEnvSecrets_def)

lemma WithNoStore_finalized:
  "rt_valid rt \<Longrightarrow> WithNoStore rt = (None, rt\<lparr>noStore := True\<rparr>)"
  by (simp add: WithNoStore_def)

lemma WithEnableSDNotify_finalized:
  "rt_valid rt \<Longrightarrow>
   WithEnableSDNotify rt =
     (None, rt\<lparr>rt_config := (rt_config rt)\<lparr>Engine := (Engine (rt_config rt))
                  \<lparr>SDNotify := True\<rparr>\<rparr>\<rparr>)"
  by (simp add: WithEnableSDNotify_def)

text \<open>
  Claim C1: for every entity whose valid flag is true, every option function returns a
  finalized error and leaves every configuration field unchanged, the check coming
  before any mutation. The code departs from this at three options. Applied to a
  finalized container that holds the environment secret \<^verbatim>\<open>TOKEN\<close>,
  \<^verbatim>\<open>WithEnvSecrets\<close> returns the finalized error but has already emptied the secrets
  map; applied to a finalized runtime, \<^verbatim>\<open>WithNoStore\<close> and \<^verbatim>\<open>WithEnableSDNotify\<close>
  return no error and set their flag.
\<close>

theorem finalized_entity_is_mutated:
  "ctr_valid finalized_ctr
   \<and> EnvSecrets (ctr_config finalized_ctr) ''TOKEN'' = Some (Secret ''api-token'' ''5f2a'')
   \<and> fst (WithEnvSecrets (Inr example_Lookup) [(''TOKEN'', ''api-token'')] finalized_ctr)
       = Some ErrCtrFinalized
   \<and> EnvSecrets (ctr_config
         (snd (WithEnvSecrets (Inr example_Lookup) [(''TOKEN'', ''api-token'')] finalized_ctr)))
         ''TOKEN'' = None
   \<and> rt_valid (zero_Runtime\<lparr>rt_valid := True\<rparr>)
   \<and> WithNoStore (zero_Runtime\<lparr>rt_valid := True\<rparr>)
       = (None, zero_Runtime\<lparr>rt_valid := True, noStore := True\<rparr>)
   \<and> noStore (zero_Runtime\<lparr>rt_valid := True\<rparr>) = False
   \<and> fst (WithEnableSDNotify (zero_Runtime\<lparr>rt_valid := True\<rparr>)) = None
   \<and> SDNotify (Engine (rt_config (snd (WithEnableSDNotify (zero_Runtime\<lparr>rt_valid := True\<rparr>)))))
       = True
   \<and> SDNotify (Engine (rt_config (zero_Runtime\<lparr>rt_valid := True\<rparr>))) = False"
  by (simp add: WithEnvSecrets_def WithNoStore_def WithEnableSDNotify_def finalized_ctr_def
      zero_Container_def zero_Runtime_def)

section \<open>Namespace dependencies\<close>

text \<open>
  Claim C2: when container A belongs to pod P1 and container B to a different pod P2,
  \<^verbatim>\<open>WithNetNSFrom(A)\<close> applied to the unfinalized B fails with a dependency error and
  leaves B, its \<^verbatim>\<open>NetNsCtr\<close> included, unchanged; when both belong to the same pod it
  succeeds and sets B's \<^verbatim>\<open>NetNsCtr\<close> to A's ID.
\<close>

theorem WithNetNSFrom_pod_boundary:
  assumes "\<not> ctr_valid B"
  shows "(Pod (ctr_config B) \<noteq> [] \<and> Pod (ctr_config A) \<noteq> Pod (ctr_config B) \<longrightarrow>
            WithNetNSFrom (Some A) B = (Some ErrDependency, B))
       \<and> (Pod (ctr_config A) = Pod (ctr_config B) \<longrightarrow>
            WithNetNSFrom (Some A) B =
              (None, B\<lparr>ctr_config := (ctr_config B)\<lparr>NetNsCtr := ID (ctr_config A)\<rparr>\<rparr>))"
  using assms
  by (simp add: WithNetNSFrom_def checkDependencyContainer_def Container_ID_def)

theorem WithNetNSFrom_pod_boundary_witness:
  "\<not> ctr_valid example_other_pod_ctr
   \<and> Pod (ctr_config example_nsCtr) = ''p1''
   \<and> Pod (ctr_config example_other_pod_ctr) = ''p2''
   \<and> WithNetNSFrom (Some example_nsCtr) example_other_pod_ctr
       = (Some ErrDependency, example_other_pod_ctr)
   \<and> NetNsCtr (ctr_config (snd (WithNetNSFrom (Some example_nsCtr) example_other_pod_ctr))) = []
   \<and> \<not> ctr_valid example_ctr
   \<and> Pod (ctr_config example_ctr) = ''p1''
   \<and> fst (WithNetNSFrom (Some example_nsCtr) example_ctr) = None
   \<and> NetNsCtr (ctr_config (snd (WithNetNSFrom (Some example_nsCtr) example_ctr))) = ''a1''"
proof -
  have other: "\<not> ctr_valid example_other_pod_ctr"
    by (simp add: example_other_pod_ctr_def zero_Container_def)
  have same: "\<not> ctr_valid example_ctr"
    by (simp add: example_ctr_def zero_Container_def)
  show ?thesis
    using WithNetNSFrom_pod_boundary [OF other, of example_nsCtr]
      WithNetNSFrom_pod_boundary [OF same, of example_nsCtr]
    by (simp add: example_nsCtr_def example_ctr_def example_other_pod_ctr_def
        zero_Container_def)
qed


text \<open>
  What the generator holds after the steps of \<^verbatim>\<open>WithUserNSFrom\<close>: adding appends
  one entry to its own list and leaves the other list alone, clearing empties its own
  list and leaves the other alone.
\<close>

lemma LinuxUIDMappings_Add:
  "LinuxUIDMappings (AddLinuxUIDMapping g hid cid sz) =
     LinuxUIDMappings g @ [\<lparr>LinuxContainerID = cid, LinuxHostID = hid, LinuxSize = sz\<rparr>]"
  by (auto simp: LinuxUIDMappings_def AddLinuxUIDMapping_def initConfigLinux_def
      split: option.splits)

lemma LinuxGIDMappings_Add:
  "LinuxGIDMappings (AddLinuxGIDMapping g hid cid sz) =
     LinuxGIDMappings g @ [\<lparr>LinuxContainerID = cid, LinuxHostID = hid, LinuxSize = sz\<rparr>]"
  by (auto simp: LinuxGIDMappings_def AddLinuxGIDMapping_def initConfigLinux_def
      split: option.splits)

lemma LinuxUIDMappings_AddGID:
  "LinuxUIDMappings (AddLinuxGIDMapping g hid cid sz) = LinuxUIDMappings g"
  by (auto simp: LinuxUIDMappings_def AddLinuxGIDMapping_def initConfigLinux_def
      split: option.splits)

lemma LinuxUIDMappings_Clear: "LinuxUIDMappings (ClearLinuxUIDMappings g) = []"
  by (auto simp: LinuxUIDMappings_def ClearLinuxUIDMappings_def split: option.splits)

lemma LinuxGIDMappings_Clear: "LinuxGIDMappings (ClearLinuxGIDMappings g) = []"
  by (auto simp: LinuxGIDMappings_def ClearLinuxGIDMappings_def split: option.splits)

lemma LinuxUIDMappings_ClearGID:
  "LinuxUIDMappings (ClearLinuxGIDMappings g) = LinuxUIDMappings g"
  by (auto simp: LinuxUIDMappings_def ClearLinuxGIDMappings_def split: option.splits)

lemma LinuxUIDMappings_loop:
  "LinuxUIDMappings (foldl (\<lambda>g uidmap. AddLinuxUIDMapping g (ucast (HostID uidmap))
      (ucast (ContainerID uidmap)) (ucast (Size uidmap))) g ms) =
   LinuxUIDMappings g @ map LinuxIDMapping_of ms"
  by (induction ms arbitrary: g) (simp_all add: LinuxUIDMappings_Add LinuxIDMapping_of_def)

lemma LinuxGIDMappings_loop:
  "LinuxGIDMappings (foldl (\<lambda>g gidmap. AddLinuxGIDMapping g (ucast (HostID gidmap))
      (ucast (ContainerID gidmap)) (ucast (Size gidmap))) g ms) =
   LinuxGIDMappings g @ map LinuxIDMapping_of ms"
  by (induction ms arbitrary: g) (simp_all add: LinuxGIDMappings_Add LinuxIDMapping_of_def)

lemma LinuxUIDMappings_GID_loop:
  "LinuxUIDMappings (foldl (\<lambda>g gidmap. AddLinuxGIDMapping g (ucast (HostID gidmap))
      (ucast (ContainerID gidmap)) (ucast (Size gidmap))) g ms) = LinuxUIDMappings g"
  by (induction ms arbitrary: g) (simp_all add: LinuxUIDMappings_AddGID)

lemma userns_generator_UID:
  "LinuxUIDMappings (userns_generator spec idmappings) =
     map LinuxIDMapping_of (UIDMap idmappings)"
  by (simp add: userns_generator_def Let_def LinuxUIDMappings_GID_loop
      LinuxUIDMappings_ClearGID LinuxUIDMappings_loop LinuxUIDMappings_Clear)

lemma userns_generator_GID:
  "LinuxGIDMappings (userns_generator spec idmappings) =
     map LinuxIDMapping_of (GIDMap idmappings)"
  by (simp add: userns_generator_def Let_def LinuxGIDMappings_loop LinuxGIDMappings_Clear)

text \<open>An ID that fits 32 bits reaches the generator with its value.\<close>

lemma LinuxIDMapping_of_exact:
  assumes "unat (ContainerID m) < 2 ^ 32" and "unat (HostID m) < 2 ^ 32"
    and "unat (Size m) < 2 ^ 32"
  shows "unat (LinuxContainerID (LinuxIDMapping_of m)) = unat (ContainerID m)"
    and "unat (LinuxHostID (LinuxIDMapping_of m)) = unat (HostID m)"
    and "unat (LinuxSize (LinuxIDMapping_of m)) = unat (Size m)"
  using assms by (simp_all add: LinuxIDMapping_of_def unsigned_ucast_eq take_bit_nat_eq_self)

text \<open>
  Claim C3: for an unfinalized container B and a container A that passes the dependency
  check, \<^verbatim>\<open>WithUserNSFrom(A)\<close> applied to B succeeds, sets B's \<^verbatim>\<open>UserNsCtr\<close> to A's
  ID, makes B's ID-mapping table equal to A's (same entries, same order), and leaves the
  spec generator with UID and GID mappings that are A's UID and GID map entry by entry,
  in order, nothing of the earlier mappings remaining. When B's config has a spec, the
  same mappings stand in that spec afterwards.
\<close>

theorem WithUserNSFrom_copies_mappings:
  assumes "\<not> ctr_valid B" and "checkDependencyContainer (Some A) B = None"
  shows "fst (WithUserNSFrom (Some A) B) = None
       \<and> UserNsCtr (ctr_config (snd (WithUserNSFrom (Some A) B))) = ID (ctr_config A)
       \<and> IDMappings (ctr_config (snd (WithUserNSFrom (Some A) B))) = IDMappings (ctr_config A)
       \<and> LinuxUIDMappings (userns_generator (CtrSpec (ctr_config B)) (IDMappings (ctr_config A)))
           = map LinuxIDMapping_of (UIDMap (IDMappings (ctr_config A)))
       \<and> LinuxGIDMappings (userns_generator (CtrSpec (ctr_config B)) (IDMappings (ctr_config A)))
           = map LinuxIDMapping_of (GIDMap (IDMappings (ctr_config A)))
       \<and> (CtrSpec (ctr_config B) \<noteq> None \<longrightarrow>
            LinuxUIDMappings (CtrSpec (ctr_config (snd (WithUserNSFrom (Some A) B))))
              = map LinuxIDMapping_of (UIDMap (IDMappings (ctr_config A)))
          \<and> LinuxGIDMappings (CtrSpec (ctr_config (snd (WithUserNSFrom (Some A) B))))
              = map LinuxIDMapping_of (GIDMap (IDMappings (ctr_config A))))"
  using assms
  by (auto simp: WithUserNSFrom_def JSONDeepCopy_def Container_ID_def
      Container_IDMappings_def userns_generator_UID userns_generator_GID Let_def
      split: option.splits)

theorem WithUserNSFrom_copies_mappings_witness:
  "\<not> ctr_valid example_ctr
   \<and> checkDependencyContainer (Some example_nsCtr) example_ctr = None
   \<and> CtrSpec (ctr_config example_ctr) \<noteq> None
   \<and> fst (WithUserNSFrom (Some example_nsCtr) example_ctr) = None
   \<and> UserNsCtr (ctr_config (snd (WithUserNSFrom (Some example_nsCtr) example_ctr))) = ''a1''
   \<and> UIDMap (IDMappings (ctr_config (snd (WithUserNSFrom (Some example_nsCtr) example_ctr))))
       = [\<lparr>ContainerID = 0, HostID = 100000, Size = 65536\<rparr>]
   \<and> GIDMap (IDMappings (ctr_config (snd (WithUserNSFrom (Some example_nsCtr) example_ctr))))
       = [\<lparr>ContainerID = 0, HostID = 200000, Size = 1\<rparr>,
          \<lparr>ContainerID = 1, HostID = 300000, Size = 65535\<rparr>]
   \<and> LinuxUIDMappings (CtrSpec (ctr_config (snd (WithUserNSFrom (Some example_nsCtr) example_ctr))))
       = [\<lparr>LinuxContainerID = 0, LinuxHostID = 100000, LinuxSize = 65536\<rparr>]
   \<and> LinuxGIDMappings (CtrSpec (ctr_config (snd (WithUserNSFrom (Some example_nsCtr) example_ctr))))
       = [\<lparr>LinuxContainerID = 0, LinuxHostID = 200000, LinuxSize = 1\<rparr>,
          \<lparr>LinuxContainerID = 1, LinuxHostID = 300000, LinuxSize = 65535\<rparr>]"
proof -
  have unfinalized: "\<not> ctr_valid example_ctr"
    by (simp add: example_ctr_def zero_Container_def)
  have passes: "checkDependencyContainer (Some example_nsCtr) example_ctr = None"
    by (simp add: checkDependencyContainer_def example_ctr_def example_nsCtr_def
        zero_Container_def)
  have spec: "CtrSpec (ctr_config example_ctr) \<noteq> None"
    by (simp add: example_ctr_def zero_Container_def)
  have maps: "IDMappings (ctr_config example_nsCtr) =
      zero_IDMappingOptions
        \<lparr>UIDMap := [\<lparr>ContainerID = 0, HostID = 100000, Size = 65536\<rparr>],
         GIDMap := [\<lparr>ContainerID = 0, HostID = 200000, Size = 1\<rparr>,
                    \<lparr>ContainerID = 1, HostID = 300000, Size = 65535\<rparr>]\<rparr>"
    and ident: "ID (ctr_config example_nsCtr) = ''a1''"
    by (simp_all add: example_nsCtr_def zero_Container_def)
  show ?thesis
    using unfinalized passes spec
      WithUserNSFrom_copies_mappings [OF unfinalized passes]
    by (simp add: maps ident LinuxIDMapping_of_def)
qed

section \<open>Storage configuration\<close>

text \<open>
  Claim C4, as the code has it: \<^verbatim>\<open>WithStorageConfig\<close> with only
  \<^verbatim>\<open>GraphDriverName\<close> set (\<^verbatim>\<open>RunRoot\<close> and \<^verbatim>\<open>GraphRoot\<close> empty in the argument and
  in the runtime), applied to an unfinalized runtime on a host whose default store
  options can be computed, succeeds and leaves \<^verbatim>\<open>RunRoot\<close> and \<^verbatim>\<open>GraphRoot\<close> of the
  storage config equal to the host's defaults. \<^verbatim>\<open>Engine.StaticDir\<close> and
  \<^verbatim>\<open>Engine.VolumePath\<close> keep the values they had: they are derived from a graph root
  only when the argument supplies one.
\<close>

theorem WithStorageConfig_driver_only:
  assumes "\<not> rt_valid rt" and "RunRoot config = []" and "GraphRoot config = []"
    and "GraphDriverName config \<noteq> []"
    and "RunRoot (storageConfig rt) = []" and "GraphRoot (storageConfig rt) = []"
  shows "(DefaultStoreOptions = Inr storeOpts \<longrightarrow>
            fst (WithStorageConfig DefaultStoreOptions config rt) = None
          \<and> RunRoot (storageConfig (snd (WithStorageConfig DefaultStoreOptions config rt)))
              = RunRoot storeOpts
          \<and> GraphRoot (storageConfig (snd (WithStorageConfig DefaultStoreOptions config rt)))
              = GraphRoot storeOpts)
       \<and> StaticDir (Engine (rt_config (snd (WithStorageConfig DefaultStoreOptions config rt))))
           = StaticDir (Engine (rt_config rt))
       \<and> VolumePath (Engine (rt_config (snd (WithStorageConfig DefaultStoreOptions config rt))))
           = VolumePath (Engine (rt_config rt))"
  using assms
  by (auto simp: WithStorageConfig_def Let_def split: option.splits sum.splits)

theorem WithStorageConfig_driver_only_witness:
  "\<not> rt_valid zero_Runtime
   \<and> GraphDriverName (zero_StoreOptions\<lparr>GraphDriverName := ''overlay''\<rparr>) \<noteq> []
   \<and> fst (WithStorageConfig (Inr rootful_StoreOptions)
          (zero_StoreOptions\<lparr>GraphDriverName := ''overlay''\<rparr>) zero_Runtime) = None
   \<and> RunRoot (storageConfig (snd (WithStorageConfig (Inr rootful_StoreOptions)
          (zero_StoreOptions\<lparr>GraphDriverName := ''overlay''\<rparr>) zero_Runtime)))
       = ''/run/containers/storage''
   \<and> GraphRoot (storageConfig (snd (WithStorageConfig (Inr rootful_StoreOptions)
          (zero_StoreOptions\<lparr>GraphDriverName := ''overlay''\<rparr>) zero_Runtime)))
       = ''/var/lib/containers/storage''
   \<and> StaticDir (Engine (rt_config (snd (WithStorageConfig (Inr rootful_StoreOptions)
          (zero_StoreOptions\<lparr>GraphDriverName := ''overlay''\<rparr>) zero_Runtime)))) = []
   \<and> VolumePath (Engine (rt_config (snd (WithStorageConfig (Inr rootful_StoreOptions)
          (zero_StoreOptions\<lparr>GraphDriverName := ''overlay''\<rparr>) zero_Runtime)))) = []"
proof -
  have h1: "\<not> rt_valid zero_Runtime"
    and h5: "RunRoot (storageConfig zero_Runtime) = []"
    and h6: "GraphRoot (storageConfig zero_Runtime) = []"
    by (simp_all add: zero_Runtime_def zero_StoreOptions_def)
  have h2: "RunRoot (zero_StoreOptions\<lparr>GraphDriverName := ''overlay''\<rparr>) = []"
    and h3: "GraphRoot (zero_StoreOptions\<lparr>GraphDriverName := ''overlay''\<rparr>) = []"
    and h4: "GraphDriverName (zero_StoreOptions\<lparr>GraphDriverName := ''overlay''\<rparr>) \<noteq> []"
    by (simp_all add: zero_StoreOptions_def)
  have engine: "StaticDir (Engine (rt_config zero_Runtime)) = []"
    "VolumePath (Engine (rt_config zero_Runtime)) = []"
    by (simp_all add: zero_Runtime_def)
  have defaults: "RunRoot rootful_StoreOptions = ''/run/containers/storage''"
    "GraphRoot rootful_StoreOptions = ''/var/lib/containers/storage''"
    by (simp_all add: rootful_StoreOptions_def zero_StoreOptions_def)
  show ?thesis
    using h1 h4 engine defaults
      WithStorageConfig_driver_only [OF h1 h2 h3 h4 h5 h6,
        of "Inr rootful_StoreOptions" rootful_StoreOptions]
    by simp
qed

text \<open>
  The claim as stated asks for \<^verbatim>\<open>Engine.StaticDir\<close> equal to \<^verbatim>\<open>GraphRoot/libpod\<close>
  and \<^verbatim>\<open>Engine.VolumePath\<close> equal to \<^verbatim>\<open>GraphRoot/volumes\<close>. On a fresh runtime and a
  rootful host both stay empty while \<^verbatim>\<open>GraphRoot\<close> becomes the host's default.
\<close>

theorem WithStorageConfig_driver_only_counterexample:
  "\<not> (StaticDir (Engine (rt_config (snd (WithStorageConfig (Inr rootful_StoreOptions)
          (zero_StoreOptions\<lparr>GraphDriverName := ''overlay''\<rparr>) zero_Runtime))))
        = filepath_Join (GraphRoot (storageConfig (snd (WithStorageConfig
            (Inr rootful_StoreOptions)
            (zero_StoreOptions\<lparr>GraphDriverName := ''overlay''\<rparr>) zero_Runtime)))) ''libpod''
      \<and> VolumePath (Engine (rt_config (snd (WithStorageConfig (Inr rootful_StoreOptions)
          (zero_StoreOptions\<lparr>GraphDriverName := ''overlay''\<rparr>) zero_Runtime))))
        = filepath_Join (GraphRoot (storageConfig (snd (WithStorageConfig
            (Inr rootful_StoreOptions)
            (zero_StoreOptions\<lparr>GraphDriverName := ''overlay''\<rparr>) zero_Runtime)))) ''volumes'')"
  by (simp add: WithStorageConfig_def zero_Runtime_def zero_StoreOptions_def
      rootful_StoreOptions_def filepath_Join_def Clean_def Clean_elem_def)


section \<open>Argument validation\<close>

text \<open>
  Which signals \<^verbatim>\<open>WithStopSignal\<close> accepts on an unfinalized container: every value
  other than 0 that is at most 64 as a signed number, the negative ones included.
\<close>

lemma WithStopSignal_accepts:
  assumes "\<not> ctr_valid ctr"
  shows "fst (WithStopSignal signal ctr) = None \<longleftrightarrow> signal \<noteq> 0 \<and> sint signal \<le> 64"
  using assms by (auto simp: WithStopSignal_def)

lemma WithStopSignal_in_range:
  assumes "\<not> ctr_valid ctr" and "1 \<le> sint signal" and "sint signal \<le> 64"
  shows "WithStopSignal signal ctr =
           (None, ctr\<lparr>ctr_config := (ctr_config ctr)\<lparr>StopSignal := signal\<rparr>\<rparr>)"
  using assms by (auto simp: WithStopSignal_def)

text \<open>
  Claim C5: \<^verbatim>\<open>WithStopSignal\<close> on an unfinalized container accepts a signal if and
  only if it lies in 1 to 64, and rejects every other value with an invalid-argument
  error. The code rejects 0 and 65, accepts 1 and 64, and also accepts the signal -1,
  which lies outside 1 to 64: it returns no error and stores the signal converted to
  an unsigned number, 18446744073709551615.
\<close>

theorem WithStopSignal_negative_signal:
  "\<not> ctr_valid zero_Container
   \<and> sint (- 1 :: go_int) = - 1
   \<and> WithStopSignal (- 1) zero_Container
       = (None, zero_Container\<lparr>ctr_config := (ctr_config zero_Container)\<lparr>StopSignal := - 1\<rparr>\<rparr>)
   \<and> unat (StopSignal (ctr_config (snd (WithStopSignal (- 1) zero_Container))))
       = 18446744073709551615
   \<and> WithStopSignal 0 zero_Container
       = (Some (Wrapf ErrInvalidArg ''stop signal cannot be 0''), zero_Container)
   \<and> WithStopSignal 65 zero_Container
       = (Some (Wrapf ErrInvalidArg ''stop signal cannot be greater than 64 (SIGRTMAX)''),
          zero_Container)
   \<and> fst (WithStopSignal 1 zero_Container) = None
   \<and> fst (WithStopSignal 64 zero_Container) = None"
  by (simp add: WithStopSignal_def zero_Container_def unsigned_minus_1_eq_mask
      mask_eq_exp_minus_1)

text \<open>
  Claim C6: \<^verbatim>\<open>WithLogDriver\<close> on an unfinalized container accepts a driver, and
  stores it as \<^verbatim>\<open>LogDriver\<close>, if and only if it is one of the five log driver names;
  the empty string is rejected with the invalid-argument error "log driver must be
  set", and any other string outside the five with the invalid-argument error "invalid
  log driver". A rejected call leaves the container unchanged. The five names are the
  constants of package \<^verbatim>\<open>define\<close>, none of them empty.
\<close>

theorem WithLogDriver_accepts_iff:
  assumes "\<not> ctr_valid ctr" and "[] \<notin> log_drivers define"
  shows "(fst (WithLogDriver define driver ctr) = None \<longleftrightarrow> driver \<in> log_drivers define)
       \<and> (driver \<in> log_drivers define \<longrightarrow>
            WithLogDriver define driver ctr =
              (None, ctr\<lparr>ctr_config := (ctr_config ctr)\<lparr>LogDriver := driver\<rparr>\<rparr>))
       \<and> (driver = [] \<longrightarrow>
            WithLogDriver define driver ctr =
              (Some (Wrapf ErrInvalidArg ''log driver must be set''), ctr))
       \<and> (driver \<noteq> [] \<and> driver \<notin> log_drivers define \<longrightarrow>
            WithLogDriver define driver ctr =
              (Some (Wrapf ErrInvalidArg ''invalid log driver''), ctr))"
  using assms by (auto simp: WithLogDriver_def log_drivers_def)

theorem WithLogDriver_accepts_iff_witness:
  "\<not> ctr_valid zero_Container
   \<and> [] \<notin> log_drivers example_LogDriverNames
   \<and> ''journald'' \<in> log_drivers example_LogDriverNames
   \<and> WithLogDriver example_LogDriverNames ''journald'' zero_Container
       = (None, zero_Container\<lparr>ctr_config := (ctr_config zero_Container)
            \<lparr>LogDriver := ''journald''\<rparr>\<rparr>)
   \<and> WithLogDriver example_LogDriverNames [] zero_Container
       = (Some (Wrapf ErrInvalidArg ''log driver must be set''), zero_Container)
   \<and> ''syslog'' \<notin> log_drivers example_LogDriverNames
   \<and> WithLogDriver example_LogDriverNames ''syslog'' zero_Container
       = (Some (Wrapf ErrInvalidArg ''invalid log driver''), zero_Container)"
proof -
  have unfinalized: "\<not> ctr_valid zero_Container"
    by (simp add: zero_Container_def)
  have names: "[] \<notin> log_drivers example_LogDriverNames"
    "''journald'' \<in> log_drivers example_LogDriverNames"
    "''syslog'' \<notin> log_drivers example_LogDriverNames"
    by (simp_all add: log_drivers_def example_LogDriverNames_def)
  show ?thesis
    using unfinalized names
      WithLogDriver_accepts_iff [OF unfinalized names(1), of "''journald''"]
      WithLogDriver_accepts_iff [OF unfinalized names(1), of "[]"]
      WithLogDriver_accepts_iff [OF unfinalized names(1), of "''syslog''"]
    by simp
qed

section \<open>DNS options\<close>

lemma parse_dns_all_valid:
  "\<forall>s \<in> set dnsServers. ParseIP s \<noteq> None \<Longrightarrow>
   parse_dns ParseIP dnsServers dns = Inr (dns @ map (the \<circ> ParseIP) dnsServers)"
  by (induction dnsServers arbitrary: dns) auto

lemma parse_dns_first_invalid:
  "\<forall>s \<in> set pre. ParseIP s \<noteq> None \<Longrightarrow> ParseIP bad = None \<Longrightarrow>
   parse_dns ParseIP (pre @ bad # post) dns =
     Inl (Wrapf ErrInvalidArg (''invalid IP address '' @ bad))"
  by (induction pre arbitrary: dns) auto

text \<open>
  Claim C7: \<^verbatim>\<open>WithDNS\<close> on an unfinalized container either parses every entry and
  appends all the parsed addresses to \<^verbatim>\<open>DNSServer\<close> in the given order, or, when some
  entry is no IP literal, fails with an invalid-argument error that names the first such
  entry and leaves the container, \<^verbatim>\<open>DNSServer\<close> included, unchanged.
\<close>

theorem WithDNS_all_or_nothing:
  assumes "\<not> ctr_valid ctr"
  shows "((\<forall>s \<in> set dnsServers. ParseIP s \<noteq> None) \<longrightarrow>
            WithDNS ParseIP dnsServers ctr =
              (None, ctr\<lparr>ctr_config := (ctr_config ctr)
                 \<lparr>DNSServer := DNSServer (ctr_config ctr) @ map (the \<circ> ParseIP) dnsServers\<rparr>\<rparr>))
       \<and> (\<forall>pre bad post.
            dnsServers = pre @ bad # post \<and> (\<forall>s \<in> set pre. ParseIP s \<noteq> None)
              \<and> ParseIP bad = None \<longrightarrow>
            WithDNS ParseIP dnsServers ctr =
              (Some (Wrapf ErrInvalidArg (''invalid IP address '' @ bad)), ctr))"
  using assms by (auto simp: WithDNS_def parse_dns_all_valid parse_dns_first_invalid)

theorem WithDNS_all_or_nothing_witness:
  "\<not> ctr_valid zero_Container
   \<and> WithDNS example_ParseIP [''10.0.0.1'', ''10.0.0.2''] zero_Container
       = (None, zero_Container\<lparr>ctr_config := (ctr_config zero_Container)
            \<lparr>DNSServer := [[0, 0, 0, 0, 0, 0, 0, 0, 0, 0, 255, 255, 10, 0, 0, 1],
                           [0, 0, 0, 0, 0, 0, 0, 0, 0, 0, 255, 255, 10, 0, 0, 2]]\<rparr>\<rparr>)
   \<and> example_ParseIP ''ns.example'' = None
   \<and> WithDNS example_ParseIP [''10.0.0.1'', ''ns.example'', ''10.0.0.2'', ''bad''] zero_Container
       = (Some (Wrapf ErrInvalidArg ''invalid IP address ns.example''), zero_Container)"
proof -
  have unfinalized: "\<not> ctr_valid zero_Container"
    by (simp add: zero_Container_def)
  have empty: "DNSServer (ctr_config zero_Container) = []"
    by (simp add: zero_Container_def)
  have parsed: "\<forall>s \<in> set [''10.0.0.1'', ''10.0.0.2'']. example_ParseIP s \<noteq> None"
    and addresses:
      "the (example_ParseIP ''10.0.0.1'') = [0, 0, 0, 0, 0, 0, 0, 0, 0, 0, 255, 255, 10, 0, 0, 1]"
      "the (example_ParseIP ''10.0.0.2'') = [0, 0, 0, 0, 0, 0, 0, 0, 0, 0, 255, 255, 10, 0, 0, 2]"
    by (simp_all add: example_ParseIP_def)
  have split: "[''10.0.0.1'', ''ns.example'', ''10.0.0.2'', ''bad''] =
      [''10.0.0.1''] @ ''ns.example'' # [''10.0.0.2'', ''bad'']
      \<and> (\<forall>s \<in> set [''10.0.0.1'']. example_ParseIP s \<noteq> None)
      \<and> example_ParseIP ''ns.example'' = None"
    by (simp add: example_ParseIP_def)
  note general = WithDNS_all_or_nothing [OF unfinalized,
      of "[''10.0.0.1'', ''10.0.0.2'']" example_ParseIP]
  have all_valid: "WithDNS example_ParseIP [''10.0.0.1'', ''10.0.0.2''] zero_Container =
      (None, zero_Container\<lparr>ctr_config := (ctr_config zero_Container)
         \<lparr>DNSServer := DNSServer (ctr_config zero_Container)
            @ map (the \<circ> example_ParseIP) [''10.0.0.1'', ''10.0.0.2'']\<rparr>\<rparr>)"
    by (rule general [THEN conjunct1, THEN mp, OF parsed])
  note general' = WithDNS_all_or_nothing [OF unfinalized,
      of "[''10.0.0.1'', ''ns.example'', ''10.0.0.2'', ''bad'']" example_ParseIP]
  have first_invalid:
    "WithDNS example_ParseIP [''10.0.0.1'', ''ns.example'', ''10.0.0.2'', ''bad''] zero_Container =
      (Some (Wrapf ErrInvalidArg (''invalid IP address '' @ ''ns.example'')), zero_Container)"
    by (rule general' [THEN conjunct2, THEN spec, THEN spec, THEN spec, THEN mp, OF split])
  show ?thesis
    using unfinalized split by (simp add: all_valid first_invalid addresses empty)
qed

text \<open>
  Claim C8: on an unfinalized container \<^verbatim>\<open>WithDNSOption\<close> fails with an
  invalid-argument error and leaves the container, \<^verbatim>\<open>DNSOption\<close> included, unchanged
  whenever \<^verbatim>\<open>UseImageResolvConf\<close> is already true. The reverse order is not checked:
  after a \<^verbatim>\<open>WithDNSOption\<close> that added its options, and on any unfinalized container
  whatever its DNS options, \<^verbatim>\<open>WithUseImageResolvConf\<close> succeeds and sets
  \<^verbatim>\<open>UseImageResolvConf\<close> to true, the options staying in place.
\<close>

theorem WithDNSOption_order_asymmetry:
  assumes "\<not> ctr_valid ctr"
  shows "(UseImageResolvConf (ctr_config ctr) \<longrightarrow>
            WithDNSOption dnsOptions ctr =
              (Some (Wrapf ErrInvalidArg
                 ''cannot add DNS options if container will not create /etc/resolv.conf''), ctr))
       \<and> (\<not> UseImageResolvConf (ctr_config ctr) \<longrightarrow>
            WithDNSOption dnsOptions ctr =
              (None, ctr\<lparr>ctr_config := (ctr_config ctr)
                 \<lparr>DNSOption := DNSOption (ctr_config ctr) @ dnsOptions\<rparr>\<rparr>)
          \<and> WithUseImageResolvConf (snd (WithDNSOption dnsOptions ctr)) =
              (None, ctr\<lparr>ctr_config := (ctr_config ctr)
                 \<lparr>DNSOption := DNSOption (ctr_config ctr) @ dnsOptions,
                  UseImageResolvConf := True\<rparr>\<rparr>))
       \<and> WithUseImageResolvConf ctr =
            (None, ctr\<lparr>ctr_config := (ctr_config ctr)\<lparr>UseImageResolvConf := True\<rparr>\<rparr>)"
  using assms by (simp add: WithDNSOption_def WithUseImageResolvConf_def)

theorem WithDNSOption_order_asymmetry_witness:
  "\<not> ctr_valid zero_Container
   \<and> \<not> UseImageResolvConf (ctr_config zero_Container)
   \<and> fst (WithDNSOption [''ndots:2''] zero_Container) = None
   \<and> DNSOption (ctr_config (snd (WithDNSOption [''ndots:2''] zero_Container))) = [''ndots:2'']
   \<and> fst (WithUseImageResolvConf (snd (WithDNSOption [''ndots:2''] zero_Container))) = None
   \<and> UseImageResolvConf (ctr_config
        (snd (WithUseImageResolvConf (snd (WithDNSOption [''ndots:2''] zero_Container)))))
   \<and> DNSOption (ctr_config
        (snd (WithUseImageResolvConf (snd (WithDNSOption [''ndots:2''] zero_Container)))))
       = [''ndots:2'']
   \<and> UseImageResolvConf (ctr_config (snd (WithUseImageResolvConf zero_Container)))
   \<and> fst (WithDNSOption [''ndots:2''] (snd (WithUseImageResolvConf zero_Container)))
       = Some (Wrapf ErrInvalidArg
           ''cannot add DNS options if container will not create /etc/resolv.conf'')
   \<and> DNSOption (ctr_config
        (snd (WithDNSOption [''ndots:2''] (snd (WithUseImageResolvConf zero_Container))))) = []"
proof -
  have unfinalized: "\<not> ctr_valid zero_Container"
    and unset: "\<not> UseImageResolvConf (ctr_config zero_Container)"
    and none: "DNSOption (ctr_config zero_Container) = []"
    by (simp_all add: zero_Container_def)
  note unset_case = WithDNSOption_order_asymmetry [OF unfinalized, of "[''ndots:2'']",
      THEN conjunct2, THEN conjunct1, THEN mp, OF unset]
  have added: "WithDNSOption [''ndots:2''] zero_Container =
      (None, zero_Container\<lparr>ctr_config := (ctr_config zero_Container)
         \<lparr>DNSOption := DNSOption (ctr_config zero_Container) @ [''ndots:2'']\<rparr>\<rparr>)"
    by (rule unset_case [THEN conjunct1])
  have then_set: "WithUseImageResolvConf (snd (WithDNSOption [''ndots:2''] zero_Container)) =
      (None, zero_Container\<lparr>ctr_config := (ctr_config zero_Container)
         \<lparr>DNSOption := DNSOption (ctr_config zero_Container) @ [''ndots:2''],
          UseImageResolvConf := True\<rparr>\<rparr>)"
    by (rule unset_case [THEN conjunct2])
  have set_first: "WithUseImageResolvConf zero_Container =
      (None, zero_Container\<lparr>ctr_config := (ctr_config zero_Container)
         \<lparr>UseImageResolvConf := True\<rparr>\<rparr>)"
    by (rule WithDNSOption_order_asymmetry [OF unfinalized, of "[''ndots:2'']",
          THEN conjunct2, THEN conjunct2])
  have unfinalized': "\<not> ctr_valid (snd (WithUseImageResolvConf zero_Container))"
    and is_set: "UseImageResolvConf (ctr_config (snd (WithUseImageResolvConf zero_Container)))"
    using unfinalized by (simp_all add: set_first)
  have rejected: "WithDNSOption [''ndots:2''] (snd (WithUseImageResolvConf zero_Container)) =
      (Some (Wrapf ErrInvalidArg
         ''cannot add DNS options if container will not create /etc/resolv.conf''),
       snd (WithUseImageResolvConf zero_Container))"
    using WithDNSOption_order_asymmetry [OF unfinalized', of "[''ndots:2'']"] is_set
    by simp
  show ?thesis
    using unfinalized unset
    by (simp add: then_set rejected) (simp add: added set_first none)
qed

section \<open>The volume's chown state\<close>

text \<open>
  Claim C9, as the code has it: \<^verbatim>\<open>WithVolumeNoChown\<close> is under the same finalize guard
  as the other volume options. Applied to a volume whose valid flag is true it returns
  the volume-finalized error and leaves the volume, \<^verbatim>\<open>NeedsChown\<close> included,
  unchanged; applied to an unfinalized volume it succeeds and sets \<^verbatim>\<open>NeedsChown\<close> to
  false.
\<close>

theorem WithVolumeNoChown_guarded:
  "(vol_valid volume \<longrightarrow> WithVolumeNoChown volume = (Some ErrVolumeFinalized, volume))
 \<and> (\<not> vol_valid volume \<longrightarrow>
       WithVolumeNoChown volume =
         (None, volume\<lparr>vol_state := (vol_state volume)\<lparr>NeedsChown := False\<rparr>\<rparr>))"
  by (simp add: WithVolumeNoChown_def)

theorem WithVolumeNoChown_guarded_witness:
  "vol_valid (zero_Volume\<lparr>vol_state := \<lparr>NeedsChown = True\<rparr>, vol_valid := True\<rparr>)
   \<and> WithVolumeNoChown (zero_Volume\<lparr>vol_state := \<lparr>NeedsChown = True\<rparr>, vol_valid := True\<rparr>)
       = (Some ErrVolumeFinalized,
          zero_Volume\<lparr>vol_state := \<lparr>NeedsChown = True\<rparr>, vol_valid := True\<rparr>)
   \<and> \<not> vol_valid (zero_Volume\<lparr>vol_state := \<lparr>NeedsChown = True\<rparr>\<rparr>)
   \<and> fst (WithVolumeNoChown (zero_Volume\<lparr>vol_state := \<lparr>NeedsChown = True\<rparr>\<rparr>)) = None
   \<and> NeedsChown (vol_state
        (snd (WithVolumeNoChown (zero_Volume\<lparr>vol_state := \<lparr>NeedsChown = True\<rparr>\<rparr>)))) = False"
proof -
  have finalized:
    "vol_valid (zero_Volume\<lparr>vol_state := \<lparr>NeedsChown = True\<rparr>, vol_valid := True\<rparr>)"
    by simp
  have unfinalized: "\<not> vol_valid (zero_Volume\<lparr>vol_state := \<lparr>NeedsChown = True\<rparr>\<rparr>)"
    by (simp add: zero_Volume_def)
  show ?thesis
    using finalized unfinalized
      WithVolumeNoChown_guarded
        [of "zero_Volume\<lparr>vol_state := \<lparr>NeedsChown = True\<rparr>, vol_valid := True\<rparr>"]
      WithVolumeNoChown_guarded [of "zero_Volume\<lparr>vol_state := \<lparr>NeedsChown = True\<rparr>\<rparr>"]
    by simp
qed

text \<open>
  The claim as stated has the setter succeed and change \<^verbatim>\<open>NeedsChown\<close> on a finalized
  volume. On a finalized volume that still needs its chown the call fails and the state
  stays true.
\<close>

theorem WithVolumeNoChown_bypass_counterexample:
  "\<not> (fst (WithVolumeNoChown
            (zero_Volume\<lparr>vol_state := \<lparr>NeedsChown = True\<rparr>, vol_valid := True\<rparr>)) = None
      \<and> NeedsChown (vol_state (snd (WithVolumeNoChown
            (zero_Volume\<lparr>vol_state := \<lparr>NeedsChown = True\<rparr>, vol_valid := True\<rparr>)))) = False)"
  by (simp add: WithVolumeNoChown_def)

section \<open>The default infra image\<close>

text \<open>
  Claim C10: \<^verbatim>\<open>WithDefaultInfraName\<close> writes the field \<^verbatim>\<open>Engine.InfraImage\<close> that
  \<^verbatim>\<open>WithDefaultInfraImage\<close> writes, and no other: on an unfinalized runtime,
  \<^verbatim>\<open>WithDefaultInfraImage(img)\<close> followed by \<^verbatim>\<open>WithDefaultInfraName(name)\<close> succeeds
  and leaves the runtime as it was except for \<^verbatim>\<open>Engine.InfraImage\<close>, which holds the
  name; the two options are the same function of their argument.
\<close>

theorem WithDefaultInfraName_overwrites_image:
  assumes "\<not> rt_valid rt"
  shows "WithDefaultInfraImage img rt =
           (None, rt\<lparr>rt_config := (rt_config rt)\<lparr>Engine := (Engine (rt_config rt))
                       \<lparr>InfraImage := img\<rparr>\<rparr>\<rparr>)
       \<and> WithDefaultInfraName name (snd (WithDefaultInfraImage img rt)) =
           (None, rt\<lparr>rt_config := (rt_config rt)\<lparr>Engine := (Engine (rt_config rt))
                       \<lparr>InfraImage := name\<rparr>\<rparr>\<rparr>)
       \<and> WithDefaultInfraName name rt = WithDefaultInfraImage name rt"
  using assms by (simp add: WithDefaultInfraImage_def WithDefaultInfraName_def)

theorem WithDefaultInfraName_overwrites_image_witness:
  "\<not> rt_valid zero_Runtime
   \<and> InfraImage (Engine (rt_config (snd (WithDefaultInfraImage ''k8s.gcr.io/pause:3.5''
        zero_Runtime)))) = ''k8s.gcr.io/pause:3.5''
   \<and> WithDefaultInfraName ''infra-1''
        (snd (WithDefaultInfraImage ''k8s.gcr.io/pause:3.5'' zero_Runtime))
       = (None, zero_Runtime\<lparr>rt_config := (rt_config zero_Runtime)
            \<lparr>Engine := (Engine (rt_config zero_Runtime))\<lparr>InfraImage := ''infra-1''\<rparr>\<rparr>\<rparr>)
   \<and> InfraImage (Engine (rt_config (snd (WithDefaultInfraName ''infra-1''
        (snd (WithDefaultInfraImage ''k8s.gcr.io/pause:3.5'' zero_Runtime)))))) = ''infra-1''"
proof -
  have unfinalized: "\<not> rt_valid zero_Runtime"
    by (simp add: zero_Runtime_def)
  note both = WithDefaultInfraName_overwrites_image [OF unfinalized,
      of "''k8s.gcr.io/pause:3.5''" "''infra-1''"]
  have image: "WithDefaultInfraImage ''k8s.gcr.io/pause:3.5'' zero_Runtime =
      (None, zero_Runtime\<lparr>rt_config := (rt_config zero_Runtime)
         \<lparr>Engine := (Engine (rt_config zero_Runtime))
            \<lparr>InfraImage := ''k8s.gcr.io/pause:3.5''\<rparr>\<rparr>\<rparr>)"
    by (rule both [THEN conjunct1])
  have name: "WithDefaultInfraName ''infra-1''
        (snd (WithDefaultInfraImage ''k8s.gcr.io/pause:3.5'' zero_Runtime)) =
      (None, zero_Runtime\<lparr>rt_config := (rt_config zero_Runtime)
         \<lparr>Engine := (Engine (rt_config zero_Runtime))\<lparr>InfraImage := ''infra-1''\<rparr>\<rparr>\<rparr>)"
    by (rule both [THEN conjunct2, THEN conjunct1])
  show ?thesis
    using unfinalized by (simp add: name) (simp add: image)
qed


end
